theory Spec2Isabelle
  imports Main "HOL-Library.Word"
begin

section \<open>JavaScript values\<close>

text \<open>
  A JavaScript string is a sequence of 16-bit code units, and \<open>length\<close> counts code
  units. A \<open>Uint8Array\<close> is a sequence of 8-bit values. Lengths and sizes are natural
  numbers. String literals of the source are written with \<open>lit\<close>.
\<close>

type_synonym jschar = "16 word"
type_synonym jsstring = "jschar list"
type_synonym byte = "8 word"

definition lit :: "string \<Rightarrow> jsstring" where
  "lit s = map (\<lambda>c. of_nat (of_char c)) s"

text \<open>
  \<open>String.prototype.trim\<close> removes the code units of ECMAScript's WhiteSpace and
  LineTerminator productions from both ends (all of them lie in the basic plane).
\<close>

definition isWhiteSpace :: "jschar \<Rightarrow> bool" where
  "isWhiteSpace c =
     (c = 0x0009 \<or> c = 0x000A \<or> c = 0x000B \<or> c = 0x000C \<or> c = 0x000D \<or> c = 0x0020
      \<or> c = 0x00A0 \<or> c = 0x1680 \<or> (0x2000 \<le> c \<and> c \<le> 0x200A) \<or> c = 0x2028
      \<or> c = 0x2029 \<or> c = 0x202F \<or> c = 0x205F \<or> c = 0x3000 \<or> c = 0xFEFF)"

definition trim :: "jsstring \<Rightarrow> jsstring" where
  "trim s = rev (dropWhile isWhiteSpace (rev (dropWhile isWhiteSpace s)))"

text \<open>
  \<open>Number.prototype.toString(16)\<close> on a non-negative integer: lower-case digits, most
  significant first, no leading zero.
\<close>

definition hexDigit :: "nat \<Rightarrow> jschar" where
  "hexDigit d = (if d < 10 then 48 + of_nat d else 87 + of_nat d)"

fun toString16 :: "nat \<Rightarrow> jsstring" where
  "toString16 n =
     (if n < 16 then [hexDigit n] else toString16 (n div 16) @ [hexDigit (n mod 16)])"

declare toString16.simps [simp del]

text \<open>
  \<open>padStart\<close> fills on the left with the pad string, repeated and cut to the missing
  length; a string that is long enough is returned as it is.
\<close>

definition padStart :: "nat \<Rightarrow> jsstring \<Rightarrow> jsstring \<Rightarrow> jsstring" where
  "padStart targetLength padString s =
     take (targetLength - length s)
       (concat (replicate (targetLength - length s) padString)) @ s"

fun join :: "jsstring \<Rightarrow> jsstring list \<Rightarrow> jsstring" where
  "join sep [] = []"
| "join sep [x] = x"
| "join sep (x # y # ys) = x @ sep @ join sep (y # ys)"

text \<open>
  \<open>toUpperCase\<close> on the Basic Latin letters. The decoder applies it only to strings of
  hexadecimal digits and spaces, where no other case mapping of Unicode takes part.
\<close>

definition upperUnit :: "jschar \<Rightarrow> jschar" where
  "upperUnit c = (if 97 \<le> c \<and> c \<le> 122 then c - 32 else c)"

definition toUpperCase :: "jsstring \<Rightarrow> jsstring" where
  "toUpperCase s = map upperUnit s"

section \<open>The hex formatter\<close>

definition bytesToHex :: "byte list \<Rightarrow> jsstring" where
  "bytesToHex bytes =
     toUpperCase
       (join (lit '' '')
          (map (\<lambda>byte. padStart 2 (lit ''0'') (toString16 (unat byte))) bytes))"

section \<open>The platform\<close>

text \<open>
  The decoder calls three functions that are not part of the repository: the
  platform's \<open>atob\<close> and the two decompression packages, each imported on demand. They
  are parameters of the model. A call either returns or throws; of a thrown value the
  decoder observes whether it is an \<open>Error\<close> (then its \<open>message\<close>) and its rendering
  in a template string. An import either rejects or delivers the package's function.
\<close>

datatype thrown =
    ErrorObject (message: jsstring) (rendering: jsstring)
  | NonError (rendering: jsstring)

type_synonym backend = "byte list \<Rightarrow> thrown + byte list"

record platform =
  atob :: "jsstring \<Rightarrow> thrown + jsstring"
  loadNada :: "thrown + backend"
  loadZstd :: "thrown + backend"

section \<open>The component state and the decoder\<close>

record decodeResult =
  compressionType :: jsstring
  hexData :: jsstring
  originalSize :: nat
  decodedSize :: nat

record component =
  input :: jsstring
  result :: "decodeResult option"
  error :: jsstring
  loading :: bool

text \<open>
  What one run of \<open>decodeBase64\<close> does, in order: the state setters it calls and the
  platform functions it invokes. \<open>null\<close> is \<open>None\<close>, the empty string is \<open>[]\<close>.
\<close>

datatype effect =
    SetError jsstring
  | SetResult "decodeResult option"
  | SetLoading bool
  | CallAtob jsstring
  | ImportNada
  | CallNada "byte list"
  | ImportZstd
  | CallZstd "byte list"

text \<open>
  The \<open>switch\<close> on the first byte: the effects of the chosen case, the label
  (\<open>compressionType\<close>) and the bytes (\<open>decodedData\<close>) that go into the result. A failing import and a failing backend call end in the
  same \<open>catch\<close>, which reports the error and keeps the bytes as they were.
\<close>

definition switchFirstByte ::
  "platform \<Rightarrow> byte \<Rightarrow> byte list \<Rightarrow> effect list \<times> jsstring \<times> byte list" where
  "switchFirstByte P firstByte dataWithoutMarker =
     (if firstByte = 0x00 then
        ([], lit ''Uncompressed (0x00)'', dataWithoutMarker)
      else if firstByte = 0x01 then
        (case loadNada P of
           Inl nadaError \<Rightarrow>
             ([ImportNada,
               SetError (lit ''NADA decompression error: '' @ rendering nadaError)],
              lit ''NADA (0x01)'', dataWithoutMarker)
         | Inr decode \<Rightarrow>
             (case decode dataWithoutMarker of
                Inl nadaError \<Rightarrow>
                  ([ImportNada, CallNada dataWithoutMarker,
                    SetError (lit ''NADA decompression error: '' @ rendering nadaError)],
                   lit ''NADA (0x01)'', dataWithoutMarker)
              | Inr decodedData \<Rightarrow>
                  ([ImportNada, CallNada dataWithoutMarker],
                   lit ''NADA (0x01)'', decodedData)))
      else if firstByte = 0x02 then
        (case loadZstd P of
           Inl zstdError \<Rightarrow>
             ([ImportZstd,
               SetError (lit ''ZSTD decompression error: '' @ rendering zstdError)],
              lit ''ZSTD (0x02)'', dataWithoutMarker)
         | Inr decompress \<Rightarrow>
             (case decompress dataWithoutMarker of
                Inl zstdError \<Rightarrow>
                  ([ImportZstd, CallZstd dataWithoutMarker,
                    SetError (lit ''ZSTD decompression error: '' @ rendering zstdError)],
                   lit ''ZSTD (0x02)'', dataWithoutMarker)
              | Inr decodedData \<Rightarrow>
                  ([ImportZstd, CallZstd dataWithoutMarker],
                   lit ''ZSTD (0x02)'', decodedData)))
      else
        ([SetError (lit ''Unknown compression marker: 0x''
             @ toUpperCase (padStart 2 (lit ''0'') (toString16 (unat firstByte))))],
         lit ''Unknown (0x''
           @ toUpperCase (padStart 2 (lit ''0'') (toString16 (unat firstByte)))
           @ lit '')'',
         dataWithoutMarker))"

text \<open>The object handed to \<open>setResult\<close> at the end of the \<open>try\<close> block.\<close>

definition makeResult :: "jsstring \<Rightarrow> byte list \<Rightarrow> jsstring \<Rightarrow> decodeResult" where
  "makeResult typeLabel decodedData inp =
     \<lparr>compressionType = typeLabel,
      hexData = bytesToHex decodedData,
      originalSize = length (trim inp),
      decodedSize = length decodedData\<rparr>"

text \<open>
  The body of the outer \<open>try\<close>. Storing a code unit into the \<open>Uint8Array\<close> keeps its
  low eight bits. The outer \<open>catch\<close> is reached from \<open>atob\<close> only.
\<close>

definition tryBlock :: "platform \<Rightarrow> jsstring \<Rightarrow> effect list" where
  "tryBlock P inp =
     CallAtob (trim inp) #
     (case atob P (trim inp) of
        Inl err \<Rightarrow>
          [SetError (lit ''Decoding error: ''
             @ (case err of ErrorObject m r \<Rightarrow> m | NonError r \<Rightarrow> lit ''Unknown error''))]
      | Inr binaryString \<Rightarrow>
          (let bytes = map ucast binaryString :: byte list in
           if length bytes = 0 then [SetError (lit ''Invalid base64 data'')]
           else
             (let firstByte = hd bytes;
                  dataWithoutMarker = drop 1 bytes;
                  (effects, typeLabel, decodedData) =
                     switchFirstByte P firstByte dataWithoutMarker
              in effects @ [SetResult (Some (makeResult typeLabel decodedData inp))])))"

definition decodeBase64 :: "platform \<Rightarrow> jsstring \<Rightarrow> effect list" where
  "decodeBase64 P inp =
     (if trim inp = [] then [SetError (lit ''Please enter a base64 string'')]
      else [SetLoading True, SetError [], SetResult None]
           @ tryBlock P inp
           @ [SetLoading False])"

fun perform :: "effect \<Rightarrow> component \<Rightarrow> component" where
  "perform (SetError e) s = s\<lparr>error := e\<rparr>"
| "perform (SetResult r) s = s\<lparr>result := r\<rparr>"
| "perform (SetLoading b) s = s\<lparr>loading := b\<rparr>"
| "perform _ s = s"

text \<open>The state the caller observes once a run on the current input has finished.\<close>

definition afterDecode :: "platform \<Rightarrow> component \<Rightarrow> component" where
  "afterDecode P s = fold perform (decodeBase64 P (input s)) s"

section \<open>A browser's \<open>atob\<close>\<close>

text \<open>
  The concrete platform used for the examples: \<open>atob\<close> as browsers implement it (the
  forgiving-base64 decode of the WHATWG Infra standard). ASCII whitespace is removed,
  one or two trailing \<open>=\<close> are dropped when the length is a multiple of four, a length
  of one modulo four and any code unit outside the alphabet are rejected with a
  \<open>DOMException\<close>, which is an \<open>Error\<close>; its message is the one of Chromium. The general theorems below hold for every platform and do not depend on
  this definition.
\<close>

definition isAsciiWhitespace :: "jschar \<Rightarrow> bool" where
  "isAsciiWhitespace c = (c = 0x09 \<or> c = 0x0A \<or> c = 0x0C \<or> c = 0x0D \<or> c = 0x20)"

definition base64Value :: "jschar \<Rightarrow> nat option" where
  "base64Value c =
     (if 65 \<le> c \<and> c \<le> 90 then Some (unat c - 65)
      else if 97 \<le> c \<and> c \<le> 122 then Some (unat c - 71)
      else if 48 \<le> c \<and> c \<le> 57 then Some (unat c + 4)
      else if c = 43 then Some 62
      else if c = 47 then Some 63
      else None)"

definition stripPadding :: "jsstring \<Rightarrow> jsstring" where
  "stripPadding d =
     (if length d mod 4 = 0 then
        (if 2 \<le> length d \<and> last d = 61 \<and> last (butlast d) = 61 then butlast (butlast d)
         else if 1 \<le> length d \<and> last d = 61 then butlast d
         else d)
      else d)"

fun sextetsToBytes :: "nat list \<Rightarrow> nat list" where
  "sextetsToBytes (a # b # c # d # rest) =
     (let n = ((a * 64 + b) * 64 + c) * 64 + d
      in [n div 65536, n div 256 mod 256, n mod 256] @ sextetsToBytes rest)"
| "sextetsToBytes [a, b, c] =
     (let n = ((a * 64 + b) * 64 + c) div 4 in [n div 256, n mod 256])"
| "sextetsToBytes [a, b] = [(a * 64 + b) div 16]"
| "sextetsToBytes _ = []"

definition invalidCharacterError :: thrown where
  "invalidCharacterError =
     ErrorObject
       (lit ''Failed to execute 'atob' on 'Window': The string to be decoded is not correctly encoded.'')
       (lit ''InvalidCharacterError: Failed to execute 'atob' on 'Window': The string to be decoded is not correctly encoded.'')"

definition browserAtob :: "jsstring \<Rightarrow> thrown + jsstring" where
  "browserAtob t =
     (let d = stripPadding (filter (\<lambda>c. \<not> isAsciiWhitespace c) t) in
      if length d mod 4 = 1 then Inl invalidCharacterError
      else if list_ex (\<lambda>c. base64Value c = None) d then Inl invalidCharacterError
      else Inr (map of_nat (sextetsToBytes (map (\<lambda>c. the (base64Value c)) d))))"

section \<open>Platforms of the examples\<close>

text \<open>
  A browser that cannot fetch the decompression packages, a browser whose packages
  reject every payload, and a browser whose packages are replaced by a stub that
  returns the three bytes \<open>48 69 21\<close>.
\<close>

definition importRejected :: thrown where
  "importRejected =
     ErrorObject (lit ''Failed to fetch dynamically imported module'')
       (lit ''TypeError: Failed to fetch dynamically imported module'')"

definition corruptPayload :: thrown where
  "corruptPayload = ErrorObject (lit ''corrupt payload'') (lit ''Error: corrupt payload'')"

definition browserOffline :: platform where
  "browserOffline =
     \<lparr>atob = browserAtob, loadNada = Inl importRejected, loadZstd = Inl importRejected\<rparr>"

definition browserRejecting :: platform where
  "browserRejecting =
     \<lparr>atob = browserAtob,
      loadNada = Inr (\<lambda>data. Inl corruptPayload),
      loadZstd = Inr (\<lambda>data. Inl corruptPayload)\<rparr>"

definition browserStub :: platform where
  "browserStub =
     \<lparr>atob = browserAtob,
      loadNada = Inr (\<lambda>data. Inr [0x48, 0x69, 0x21]),
      loadZstd = Inr (\<lambda>data. Inr [0x48, 0x69, 0x21])\<rparr>"

definition idle :: "jsstring \<Rightarrow> component" where
  "idle inp = \<lparr>input = inp, result = None, error = [], loading = False\<rparr>"

text \<open>The result a browser shows for the input \<open>AEhlbGxvCg==\<close>.\<close>

definition helloResult :: decodeResult where
  "helloResult =
     \<lparr>compressionType = lit ''Uncompressed (0x00)'',
      hexData = lit ''48 65 6C 6C 6F 0A'',
      originalSize = 12,
      decodedSize = 6\<rparr>"

text \<open>
  What the \<open>catch\<close> of a backend case receives, if anything: the rejection of the
  import, or else the exception of the call on the payload.
\<close>

definition backendFailure :: "thrown + backend \<Rightarrow> byte list \<Rightarrow> thrown option" where
  "backendFailure loaded data =
     (case loaded of
        Inl e \<Rightarrow> Some e
      | Inr f \<Rightarrow> (case f data of Inl e \<Rightarrow> Some e | Inr out \<Rightarrow> None))"

section \<open>The formatter as the specification words it\<close>

text \<open>
  The specification's wording of the hex format, to compare \<open>bytesToHex\<close> with: two
  upper-case digits for each byte, the high one first, and one space between
  neighbouring bytes. \<open>parseHex\<close> reads that format back and refuses everything else.
\<close>

definition upperHexDigit :: "nat \<Rightarrow> jschar" where
  "upperHexDigit d = lit ''0123456789ABCDEF'' ! d"

definition twoHexDigits :: "byte \<Rightarrow> jsstring" where
  "twoHexDigits b = [upperHexDigit (unat b div 16), upperHexDigit (unat b mod 16)]"

fun formatSpec :: "byte list \<Rightarrow> jsstring" where
  "formatSpec [] = []"
| "formatSpec [b] = twoHexDigits b"
| "formatSpec (b # c # bs) = twoHexDigits b @ lit '' '' @ formatSpec (c # bs)"

definition hexValue :: "jschar \<Rightarrow> nat option" where
  "hexValue c =
     (if 48 \<le> c \<and> c \<le> 57 then Some (unat c - 48)
      else if 65 \<le> c \<and> c \<le> 70 then Some (unat c - 55)
      else if 97 \<le> c \<and> c \<le> 102 then Some (unat c - 87)
      else None)"

definition parseByte :: "jschar \<Rightarrow> jschar \<Rightarrow> byte option" where
  "parseByte h l =
     (case hexValue h of
        None \<Rightarrow> None
      | Some a \<Rightarrow> (case hexValue l of None \<Rightarrow> None | Some b \<Rightarrow> Some (of_nat (16 * a + b))))"

fun parseHex :: "jsstring \<Rightarrow> byte list option" where
  "parseHex [] = Some []"
| "parseHex [h, l] = (case parseByte h l of None \<Rightarrow> None | Some b \<Rightarrow> Some [b])"
| "parseHex (h # l # sp # rest) =
     (if sp = 32 \<and> rest \<noteq> [] then
        (case parseByte h l of
           None \<Rightarrow> None
         | Some b \<Rightarrow> (case parseHex rest of None \<Rightarrow> None | Some bs \<Rightarrow> Some (b # bs)))
      else None)"
| "parseHex _ = None"

section \<open>Observations on a run\<close>

text \<open>
  The effects that produce a result, and the effects of the marker dispatch that
  reach a backend.
\<close>

fun setsResult :: "effect \<Rightarrow> bool" where
  "setsResult (SetResult (Some r)) = True"
| "setsResult e = False"

fun isBackendEffect :: "effect \<Rightarrow> bool" where
  "isBackendEffect ImportNada = True"
| "isBackendEffect (CallNada d) = True"
| "isBackendEffect ImportZstd = True"
| "isBackendEffect (CallZstd d) = True"
| "isBackendEffect e = False"

text \<open>
  Base64 text that is not valid for a browser: it has a character that is neither of
  the alphabet, nor \<open>=\<close>, nor ASCII whitespace; or, with the ASCII whitespace taken out
  and one or two final \<open>=\<close> dropped where the length is a multiple of four, an \<open>=\<close>
  is left (padding in the wrong place or of the wrong length) or the length is one
  modulo four.
\<close>

definition foreignCharacter :: "jschar \<Rightarrow> bool" where
  "foreignCharacter c = (\<not> isAsciiWhitespace c \<and> c \<noteq> 61 \<and> base64Value c = None)"

definition withoutPadding :: "jsstring \<Rightarrow> jsstring" where
  "withoutPadding t = stripPadding (filter (\<lambda>c. \<not> isAsciiWhitespace c) t)"

definition invalidBase64 :: "jsstring \<Rightarrow> bool" where
  "invalidBase64 t =
     (list_ex foreignCharacter t
      \<or> 61 \<in> set (withoutPadding t)
      \<or> length (withoutPadding t) mod 4 = 1)"

section \<open>Hexadecimal digits of a byte\<close>

lemma lt16_cases:
  "d < 16 \<Longrightarrow> d = 0 \<or> d = 1 \<or> d = 2 \<or> d = 3 \<or> d = 4 \<or> d = 5 \<or> d = 6 \<or> d = 7
     \<or> d = 8 \<or> d = 9 \<or> d = 10 \<or> d = 11 \<or> d = 12 \<or> d = 13 \<or> d = 14 \<or> d = (15::nat)"
  by arith

lemma upperUnit_hexDigit: "d < 16 \<Longrightarrow> upperUnit (hexDigit d) = upperHexDigit d"
  by (drule lt16_cases)
     (elim disjE; simp add: upperUnit_def hexDigit_def upperHexDigit_def lit_def)

lemma hexValue_upperHexDigit: "d < 16 \<Longrightarrow> hexValue (upperHexDigit d) = Some d"
  by (drule lt16_cases) (elim disjE; simp add: hexValue_def upperHexDigit_def lit_def)

lemma toString16_small: "n < 16 \<Longrightarrow> toString16 n = [hexDigit n]"
  by (simp add: toString16.simps)

lemma toString16_two:
  "16 \<le> n \<Longrightarrow> n < 256 \<Longrightarrow> toString16 n = [hexDigit (n div 16), hexDigit (n mod 16)]"
  by (subst toString16.simps) (simp add: toString16_small)

lemma unat_byte_less: "unat (b::byte) < 256"
  using unsigned_less [of b, where ?'a = nat] by simp

lemma hex_of_byte:
  "toUpperCase (padStart 2 (lit ''0'') (toString16 (unat (b::byte)))) = twoHexDigits b"
proof (cases "unat b < 16")
  case True
  then show ?thesis
    using upperUnit_hexDigit [of "unat b"]
    by (simp add: toString16_small padStart_def toUpperCase_def twoHexDigits_def lit_def
        upperUnit_def upperHexDigit_def)
next
  case False
  have "unat b div 16 < 16" using unat_byte_less [of b] by simp
  then show ?thesis
    using False unat_byte_less [of b]
      upperUnit_hexDigit [of "unat b div 16"] upperUnit_hexDigit [of "unat b mod 16"]
    by (simp add: toString16_two padStart_def toUpperCase_def twoHexDigits_def)
qed

lemma toUpperCase_append: "toUpperCase (a @ b) = toUpperCase a @ toUpperCase b"
  by (simp add: toUpperCase_def)

lemma toUpperCase_space: "toUpperCase (lit '' '') = lit '' ''"
  by (simp add: toUpperCase_def lit_def upperUnit_def)

lemma bytesToHex_formatSpec: "bytesToHex bytes = formatSpec bytes"
  unfolding bytesToHex_def
  by (induction bytes rule: formatSpec.induct)
     (simp_all add: hex_of_byte toUpperCase_append toUpperCase_space, simp add: toUpperCase_def)

lemma parseByte_twoHexDigits:
  "parseByte (upperHexDigit (unat b div 16)) (upperHexDigit (unat b mod 16)) = Some b"
proof -
  have "unat b div 16 < 16" using unat_byte_less [of b] by simp
  then show ?thesis
    by (simp add: parseByte_def hexValue_upperHexDigit)
qed

lemma formatSpec_nonempty: "formatSpec (b # bs) \<noteq> []"
  by (cases bs) (simp_all add: twoHexDigits_def)

lemma parseHex_formatSpec: "parseHex (formatSpec bytes) = Some bytes"
proof (induction bytes rule: formatSpec.induct)
  case 1
  show ?case by simp
next
  case (2 b)
  show ?case by (simp add: twoHexDigits_def parseByte_twoHexDigits)
next
  case (3 b c bs)
  then show ?case
    using formatSpec_nonempty [of c bs]
    by (simp add: twoHexDigits_def parseByte_twoHexDigits lit_def)
qed

lemma parseHex_bytesToHex: "parseHex (bytesToHex bytes) = Some bytes"
  by (simp add: bytesToHex_formatSpec parseHex_formatSpec)

lemma length_formatSpec: "length (formatSpec bytes) = 3 * length bytes - 1"
  by (induction bytes rule: formatSpec.induct) (simp_all add: twoHexDigits_def lit_def)

section \<open>The hex formatter (claim C6)\<close>

text \<open>
  C6. For every byte sequence the formatter writes each byte as exactly two upper-case,
  zero-padded hexadecimal digits, with one space between neighbouring bytes and none
  before the first or after the last; the empty sequence gives the empty string. The
  output is a function of the bytes alone, and parsing it gives the bytes back.
\<close>

theorem bytesToHex_format_roundtrip:
  "bytesToHex bytes = formatSpec bytes
   \<and> bytesToHex [] = []
   \<and> length (bytesToHex bytes) = 3 * length bytes - 1
   \<and> parseHex (bytesToHex bytes) = Some bytes"
  by (simp add: bytesToHex_formatSpec parseHex_formatSpec length_formatSpec)

theorem bytesToHex_format_roundtrip_example:
  "bytesToHex [0x48, 0x65, 0x6C, 0x6C, 0x6F, 0x0A] = lit ''48 65 6C 6C 6F 0A''
   \<and> parseHex (lit ''48 65 6C 6C 6F 0A'') = Some [0x48, 0x65, 0x6C, 0x6C, 0x6F, 0x0A]"
  using bytesToHex_format_roundtrip [of "[0x48, 0x65, 0x6C, 0x6C, 0x6F, 0x0A]"]
  by (simp add: twoHexDigits_def upperHexDigit_def lit_def parseByte_def hexValue_def)

section \<open>Blank inputs\<close>

lemma dropWhile_all_iff: "(\<forall>x\<in>set (dropWhile Q xs). Q x) \<longleftrightarrow> (\<forall>x\<in>set xs. Q x)"
proof
  assume all: "\<forall>x\<in>set (dropWhile Q xs). Q x"
  have "dropWhile Q xs = []"
  proof (rule ccontr)
    assume ne: "dropWhile Q xs \<noteq> []"
    then have "\<not> Q (hd (dropWhile Q xs))" by (rule hd_dropWhile)
    moreover have "hd (dropWhile Q xs) \<in> set (dropWhile Q xs)" using ne by simp
    ultimately show False using all by blast
  qed
  then show "\<forall>x\<in>set xs. Q x" by (simp add: dropWhile_eq_Nil_conv)
next
  assume "\<forall>x\<in>set xs. Q x"
  then show "\<forall>x\<in>set (dropWhile Q xs). Q x" by (meson set_dropWhileD)
qed

lemma trim_empty_iff: "trim inp = [] \<longleftrightarrow> list_all isWhiteSpace inp"
  by (simp add: trim_def list_all_iff dropWhile_eq_Nil_conv dropWhile_all_iff)

lemma trim_idem_blank: "list_all isWhiteSpace (trim t) \<Longrightarrow> trim t = []"
proof (rule ccontr)
  assume a: "list_all isWhiteSpace (trim t)" and ne: "trim t \<noteq> []"
  let ?u = "dropWhile isWhiteSpace (rev (dropWhile isWhiteSpace t))"
  from ne have ne': "?u \<noteq> []" by (simp add: trim_def)
  then have "\<not> isWhiteSpace (hd ?u)" by (rule hd_dropWhile)
  moreover have "hd ?u \<in> set (trim t)" using ne' by (simp add: trim_def)
  ultimately show False using a by (auto simp add: list_all_iff)
qed

section \<open>The runs of the decoder\<close>

lemma lit_nonempty: "lit (c # cs) \<noteq> []"
  by (simp add: lit_def)

lemma decodeBase64_nonblank:
  "trim inp \<noteq> [] \<Longrightarrow>
   decodeBase64 P inp =
     [SetLoading True, SetError [], SetResult None] @ tryBlock P inp @ [SetLoading False]"
  by (simp add: decodeBase64_def)

lemma tryBlock_bytes:
  assumes "atob P (trim inp) = Inr binaryString" and "map ucast binaryString = B" and "B \<noteq> []"
  shows "tryBlock P inp =
     CallAtob (trim inp) #
     fst (switchFirstByte P (hd B) (drop 1 B)) @
     [SetResult (Some (makeResult (fst (snd (switchFirstByte P (hd B) (drop 1 B))))
                        (snd (snd (switchFirstByte P (hd B) (drop 1 B)))) inp))]"
  using assms by (auto simp add: tryBlock_def Let_def split: prod.splits)

lemma tryBlock_thrown:
  "atob P (trim inp) = Inl err \<Longrightarrow>
   tryBlock P inp =
     [CallAtob (trim inp),
      SetError (lit ''Decoding error: ''
        @ (case err of ErrorObject m r \<Rightarrow> m | NonError r \<Rightarrow> lit ''Unknown error''))]"
  by (simp add: tryBlock_def)

lemma tryBlock_empty:
  "atob P (trim inp) = Inr [] \<Longrightarrow>
   tryBlock P inp = [CallAtob (trim inp), SetError (lit ''Invalid base64 data'')]"
  by (simp add: tryBlock_def)

lemma switch_sets_no_result: "SetResult x \<notin> set (fst (switchFirstByte P b d))"
  by (simp add: switchFirstByte_def split: sum.splits)

lemma tryBlock_result:
  assumes "SetResult (Some r) \<in> set (tryBlock P inp)"
  shows "\<exists>label payload. r = makeResult label payload inp"
proof (cases "atob P (trim inp)")
  case (Inl err)
  with assms show ?thesis by (simp add: tryBlock_thrown)
next
  case (Inr binaryString)
  show ?thesis
  proof (cases "binaryString = []")
    case True
    with Inr assms show ?thesis by (simp add: tryBlock_empty)
  next
    case False
    then have "map ucast binaryString \<noteq> ([] :: byte list)" by simp
    from tryBlock_bytes [OF Inr refl this] assms show ?thesis
      by (auto simp add: switch_sets_no_result)
  qed
qed

lemma decodeBase64_result:
  assumes "SetResult (Some r) \<in> set (decodeBase64 P inp)"
  shows "\<exists>label payload. r = makeResult label payload inp"
proof (cases "trim inp = []")
  case True
  with assms show ?thesis by (simp add: decodeBase64_def)
next
  case False
  with assms have "SetResult (Some r) \<in> set (tryBlock P inp)"
    by (simp add: decodeBase64_def)
  then show ?thesis by (rule tryBlock_result)
qed

lemma switch_uncompressed:
  "switchFirstByte P 0x00 d = ([], lit ''Uncompressed (0x00)'', d)"
  by (simp add: switchFirstByte_def)

lemma switch_nada_failure:
  "backendFailure (loadNada P) d = Some e \<Longrightarrow>
   snd (switchFirstByte P 0x01 d) = (lit ''NADA (0x01)'', d)
   \<and> fold perform (fst (switchFirstByte P 0x01 d)) s
       = s\<lparr>error := lit ''NADA decompression error: '' @ rendering e\<rparr>"
  by (auto simp add: switchFirstByte_def backendFailure_def split: sum.splits)

lemma switch_zstd_failure:
  "backendFailure (loadZstd P) d = Some e \<Longrightarrow>
   snd (switchFirstByte P 0x02 d) = (lit ''ZSTD (0x02)'', d)
   \<and> fold perform (fst (switchFirstByte P 0x02 d)) s
       = s\<lparr>error := lit ''ZSTD decompression error: '' @ rendering e\<rparr>"
  by (auto simp add: switchFirstByte_def backendFailure_def split: sum.splits)

lemma switch_unknown:
  "b \<noteq> 0x00 \<Longrightarrow> b \<noteq> 0x01 \<Longrightarrow> b \<noteq> 0x02 \<Longrightarrow>
   switchFirstByte P b d =
     ([SetError (lit ''Unknown compression marker: 0x'' @ twoHexDigits b)],
      lit ''Unknown (0x'' @ twoHexDigits b @ lit '')'', d)"
  by (simp add: switchFirstByte_def hex_of_byte)

lemma afterDecode_bytes:
  assumes "trim (input s) \<noteq> []" and "atob P (trim (input s)) = Inr binaryString"
    and "map ucast binaryString = B" and "B \<noteq> []"
  shows "afterDecode P s =
     (fold perform (fst (switchFirstByte P (hd B) (drop 1 B))) (s\<lparr>loading := True, error := [], result := None\<rparr>))
       \<lparr>result := Some (makeResult (fst (snd (switchFirstByte P (hd B) (drop 1 B))))
                        (snd (snd (switchFirstByte P (hd B) (drop 1 B)))) (input s)),
        loading := False\<rparr>"
  using assms
  by (simp add: afterDecode_def decodeBase64_nonblank tryBlock_bytes [OF assms(2-4)])

section \<open>The browser's base64 decoder\<close>

text \<open>
  Two facts about \<open>browserAtob\<close>: it rejects every text with a code unit that is
  neither ASCII whitespace, nor \<open>=\<close>, nor of the alphabet; and it never returns the
  empty string for a trimmed text that is not empty, so that on a browser only a blank
  input decodes to zero bytes.
\<close>

lemma in_set_butlast_if: "x \<in> set xs \<Longrightarrow> x \<noteq> last xs \<Longrightarrow> x \<in> set (butlast xs)"
  by (induction xs) (auto split: if_splits)

lemma stripPadding_keeps:
  assumes "c \<in> set d" and "c \<noteq> 61"
  shows "c \<in> set (stripPadding d)"
proof -
  have one: "c \<in> set (butlast d)" if "last d = 61"
  proof -
    have "c \<noteq> last d" using assms(2) that by simp
    with assms(1) show ?thesis by (rule in_set_butlast_if)
  qed
  have two: "c \<in> set (butlast (butlast d))" if "last d = 61" "last (butlast d) = 61"
  proof -
    have "c \<noteq> last (butlast d)" using assms(2) that(2) by simp
    with one [OF that(1)] show ?thesis by (rule in_set_butlast_if)
  qed
  show ?thesis
    using assms one two by (auto simp add: stripPadding_def)
qed

lemma browserAtob_rejects_foreign:
  assumes "c \<in> set t" and "\<not> isAsciiWhitespace c" and "c \<noteq> 61" and "base64Value c = None"
  shows "browserAtob t = Inl invalidCharacterError"
proof -
  let ?d = "stripPadding (filter (\<lambda>c. \<not> isAsciiWhitespace c) t)"
  have "c \<in> set (filter (\<lambda>c. \<not> isAsciiWhitespace c) t)" using assms by simp
  then have "c \<in> set ?d" using assms(3) by (rule stripPadding_keeps)
  then have "list_ex (\<lambda>c. base64Value c = None) ?d"
    using assms(4) by (auto simp add: list_ex_iff)
  then show ?thesis by (simp add: browserAtob_def Let_def)
qed

lemma sextetsToBytes_empty: "sextetsToBytes xs = [] \<Longrightarrow> length xs \<le> 1"
  by (induction xs rule: sextetsToBytes.induct) (simp_all add: Let_def)

lemma stripPadding_empty: "stripPadding d = [] \<Longrightarrow> d = []"
proof (rule ccontr)
  assume e: "stripPadding d = []" and ne: "d \<noteq> []"
  show False
  proof (cases "length d mod 4 = 0")
    case False
    with e ne show False by (simp add: stripPadding_def)
  next
    case True
    moreover from ne have "length d \<noteq> 0" by simp
    ultimately have "4 \<le> length d" by presburger
    then have "butlast (butlast d) \<noteq> []" "butlast d \<noteq> []"
      by (auto simp flip: length_0_conv)
    with e ne True show False by (auto simp add: stripPadding_def split: if_splits)
  qed
qed

lemma browserAtob_empty:
  assumes "browserAtob t = Inr []"
  shows "list_all isAsciiWhitespace t"
proof -
  let ?d = "stripPadding (filter (\<lambda>c. \<not> isAsciiWhitespace c) t)"
  from assms have m: "length ?d mod 4 \<noteq> 1"
    and s: "sextetsToBytes (map (\<lambda>c. the (base64Value c)) ?d) = []"
    by (auto simp add: browserAtob_def Let_def split: if_splits)
  from sextetsToBytes_empty [OF s] m have "?d = []"
    by (cases ?d) (auto simp add: le_Suc_eq)
  then have "filter (\<lambda>c. \<not> isAsciiWhitespace c) t = []" by (rule stripPadding_empty)
  then show ?thesis by (simp add: filter_empty_conv list_all_iff)
qed

lemma isAsciiWhitespace_isWhiteSpace: "isAsciiWhitespace c \<Longrightarrow> isWhiteSpace c"
  by (auto simp add: isAsciiWhitespace_def isWhiteSpace_def)

lemma browserAtob_never_empty_after_trim:
  "trim t \<noteq> [] \<Longrightarrow> browserAtob (trim t) \<noteq> Inr []"
proof
  assume ne: "trim t \<noteq> []" and e: "browserAtob (trim t) = Inr []"
  from browserAtob_empty [OF e] have "list_all isWhiteSpace (trim t)"
    by (auto simp add: list_all_iff isAsciiWhitespace_isWhiteSpace)
  then have "trim t = []" by (rule trim_idem_blank)
  with ne show False by simp
qed

text \<open>The texts that \<open>browserAtob\<close> rejects are exactly the invalid ones.\<close>

lemma set_stripPadding_subset: "set (stripPadding d) \<subseteq> set d"
  by (auto simp add: stripPadding_def dest: in_set_butlastD)

lemma base64Value_equals_sign: "base64Value 61 = None"
  by (simp add: base64Value_def)

lemma browserAtob_rejects_iff:
  "browserAtob t = Inl invalidCharacterError \<longleftrightarrow> invalidBase64 t"
proof -
  let ?d = "withoutPadding t"
  have "list_ex (\<lambda>c. base64Value c = None) ?d
          \<longleftrightarrow> list_ex foreignCharacter t \<or> 61 \<in> set ?d"
  proof
    assume "list_ex (\<lambda>c. base64Value c = None) ?d"
    then obtain c where c: "c \<in> set ?d" "base64Value c = None"
      by (auto simp add: list_ex_iff)
    show "list_ex foreignCharacter t \<or> 61 \<in> set ?d"
    proof (cases "c = 61")
      case True
      with c show ?thesis by simp
    next
      case False
      from c(1) set_stripPadding_subset
      have "c \<in> set (filter (\<lambda>c. \<not> isAsciiWhitespace c) t)"
        unfolding withoutPadding_def by blast
      with False c(2) have "c \<in> set t \<and> foreignCharacter c"
        by (simp add: foreignCharacter_def)
      then show ?thesis by (auto simp add: list_ex_iff)
    qed
  next
    assume "list_ex foreignCharacter t \<or> 61 \<in> set ?d"
    then show "list_ex (\<lambda>c. base64Value c = None) ?d"
    proof
      assume "list_ex foreignCharacter t"
      then obtain c where c: "c \<in> set t" "foreignCharacter c"
        by (auto simp add: list_ex_iff)
      then have "c \<in> set (filter (\<lambda>c. \<not> isAsciiWhitespace c) t)" "c \<noteq> 61"
        by (simp_all add: foreignCharacter_def)
      then have "c \<in> set ?d"
        unfolding withoutPadding_def by (rule stripPadding_keeps)
      with c(2) show ?thesis by (auto simp add: list_ex_iff foreignCharacter_def)
    next
      assume "61 \<in> set ?d"
      then show ?thesis using base64Value_equals_sign by (auto simp add: list_ex_iff)
    qed
  qed
  then show ?thesis
    by (auto simp add: browserAtob_def invalidBase64_def withoutPadding_def Let_def)
qed

lemma invalidBase64_nonempty: "invalidBase64 t \<Longrightarrow> t \<noteq> []"
  by (auto simp add: invalidBase64_def withoutPadding_def stripPadding_def)

section \<open>Example runs\<close>

lemmas js_eval =
  lit_def trim_def isWhiteSpace_def padStart_def toUpperCase_def upperUnit_def hexDigit_def
  toString16.simps bytesToHex_def makeResult_def

lemmas atob_eval =
  browserAtob_def isAsciiWhitespace_def stripPadding_def base64Value_def
  invalidCharacterError_def

lemma atob_hello:
  "browserAtob (lit ''AEhlbGxvCg=='') = Inr [0, 72, 101, 108, 108, 111, 10]"
  by (simp add: js_eval atob_eval)

lemma trim_hello: "trim (lit ''AEhlbGxvCg=='') = lit ''AEhlbGxvCg==''"
  by (simp add: js_eval)

lemma trim_hello_padded: "trim (lit ''  AEhlbGxvCg==  '') = lit ''AEhlbGxvCg==''"
  by (simp add: js_eval)

lemma hex_hello: "bytesToHex [72, 101, 108, 108, 111, 10] = lit ''48 65 6C 6C 6F 0A''"
  by (simp add: js_eval)

lemma atob_hello_inner_space:
  "browserAtob (lit ''AEhl bGxvCg=='') = Inr [0, 72, 101, 108, 108, 111, 10]"
  by (simp add: js_eval atob_eval)

lemma trim_hello_inner_space: "trim (lit ''AEhl bGxvCg=='') = lit ''AEhl bGxvCg==''"
  by (simp add: js_eval)

lemma atob_marker_only: "browserAtob (lit ''/w=='') = Inr [255]"
  by (simp add: js_eval atob_eval)

lemma atob_marked_AB: "browserAtob (lit ''AkFC'') = Inr [2, 65, 66]"
  by (simp add: js_eval atob_eval)

lemma atob_nada_AB: "browserAtob (lit ''AUFC'') = Inr [1, 65, 66]"
  by (simp add: js_eval atob_eval)

lemma atob_bang: "browserAtob (lit ''AE!h'') = Inl invalidCharacterError"
  by (simp add: js_eval atob_eval)

lemma trim_short:
  "trim (lit ''/w=='') = lit ''/w==''" "trim (lit ''AkFC'') = lit ''AkFC''"
  "trim (lit ''AUFC'') = lit ''AUFC''" "trim (lit ''AE!h'') = lit ''AE!h''"
  by (simp_all add: js_eval)

lemma hex_AB: "bytesToHex [65, 66] = lit ''41 42''"
  by (simp add: js_eval)

lemma hex_stub: "bytesToHex [72, 105, 33] = lit ''48 69 21''"
  by (simp add: js_eval)

lemma hex_nothing: "bytesToHex [] = []"
  by (simp add: js_eval)

lemma hex_FF: "twoHexDigits 255 = lit ''FF''"
  by (simp add: twoHexDigits_def upperHexDigit_def lit_def)

section \<open>Backend failure (claim C1)\<close>

text \<open>
  C1. For every byte sequence whose first byte is 0x01 (NADA) or 0x02 (ZSTD): if the
  backend of that marker fails (its import rejects or its call on the payload throws),
  the decoder goes on. It reports the error of the scheme, with the rendering of the
  thrown value, and still sets a result whose hex data are those of the bytes after
  the marker, still compressed; the result and a non-empty error are there together.
\<close>

theorem backend_failure_keeps_payload:
  fixes B :: "byte list"
  assumes "trim (input s) \<noteq> []" and "atob P (trim (input s)) = Inr binaryString"
    and "map ucast binaryString = B" and "B \<noteq> []"
    and "hd B = 0x01 \<or> hd B = 0x02"
    and "backendFailure (if hd B = 0x01 then loadNada P else loadZstd P) (drop 1 B) = Some e"
  shows "result (afterDecode P s)
           = Some (makeResult (if hd B = 0x01 then lit ''NADA (0x01)'' else lit ''ZSTD (0x02)'')
                     (drop 1 B) (input s))
         \<and> error (afterDecode P s)
             = (if hd B = 0x01 then lit ''NADA decompression error: ''
                else lit ''ZSTD decompression error: '') @ rendering e
         \<and> error (afterDecode P s) \<noteq> []
         \<and> loading (afterDecode P s) = False
         \<and> parseHex (hexData (makeResult
                (if hd B = 0x01 then lit ''NADA (0x01)'' else lit ''ZSTD (0x02)'')
                (drop 1 B) (input s))) = Some (drop 1 B)"
proof (cases "hd B = 0x01")
  case True
  with assms(6) have "backendFailure (loadNada P) (drop 1 B) = Some e" by simp
  from switch_nada_failure [OF this] True show ?thesis
    by (simp add: afterDecode_bytes [OF assms(1-4)] makeResult_def parseHex_bytesToHex
        lit_nonempty)
next
  case False
  with assms(5) have two: "hd B = 0x02" by simp
  with assms(6) have "backendFailure (loadZstd P) (drop 1 B) = Some e" by simp
  from switch_zstd_failure [OF this] two show ?thesis
    by (simp add: afterDecode_bytes [OF assms(1-4)] makeResult_def parseHex_bytesToHex
        lit_nonempty)
qed

theorem backend_failure_keeps_payload_witness:
  "trim (input (idle (lit ''AUFC''))) \<noteq> []
   \<and> atob browserOffline (trim (input (idle (lit ''AUFC'')))) = Inr [1, 65, 66]
   \<and> backendFailure (loadNada browserOffline) [65, 66] = Some importRejected
   \<and> result (afterDecode browserOffline (idle (lit ''AUFC'')))
       = Some \<lparr>compressionType = lit ''NADA (0x01)'', hexData = lit ''41 42'',
                originalSize = 4, decodedSize = 2\<rparr>
   \<and> error (afterDecode browserOffline (idle (lit ''AUFC'')))
       = lit ''NADA decompression error: TypeError: Failed to fetch dynamically imported module''
   \<and> trim (input (idle (lit ''AkFC''))) \<noteq> []
   \<and> atob browserRejecting (trim (input (idle (lit ''AkFC'')))) = Inr [2, 65, 66]
   \<and> backendFailure (loadZstd browserRejecting) [65, 66] = Some corruptPayload
   \<and> result (afterDecode browserRejecting (idle (lit ''AkFC'')))
       = Some \<lparr>compressionType = lit ''ZSTD (0x02)'', hexData = lit ''41 42'',
                originalSize = 4, decodedSize = 2\<rparr>
   \<and> error (afterDecode browserRejecting (idle (lit ''AkFC'')))
       = lit ''ZSTD decompression error: Error: corrupt payload''"
proof -
  let ?s = "idle (lit ''AUFC'')"
  let ?t = "idle (lit ''AkFC'')"
  let ?B = "[1, 65, 66] :: byte list"
  let ?C = "[2, 65, 66] :: byte list"
  have s1: "trim (input ?s) \<noteq> []" by (simp add: idle_def trim_short) (simp add: lit_def)
  have s2: "atob browserOffline (trim (input ?s)) = Inr [1, 65, 66]"
    by (simp add: idle_def trim_short browserOffline_def atob_nada_AB)
  have s3: "map ucast ([1, 65, 66] :: jsstring) = ?B" by simp
  have s4: "?B \<noteq> []" by simp
  have s5: "hd ?B = 0x01 \<or> hd ?B = 0x02" by simp
  have s6: "backendFailure (if hd ?B = 0x01 then loadNada browserOffline
              else loadZstd browserOffline) (drop 1 ?B) = Some importRejected"
    by (simp add: backendFailure_def browserOffline_def)
  have t1: "trim (input ?t) \<noteq> []" by (simp add: idle_def trim_short) (simp add: lit_def)
  have t2: "atob browserRejecting (trim (input ?t)) = Inr [2, 65, 66]"
    by (simp add: idle_def trim_short browserRejecting_def atob_marked_AB)
  have t3: "map ucast ([2, 65, 66] :: jsstring) = ?C" by simp
  have t4: "?C \<noteq> []" by simp
  have t5: "hd ?C = 0x01 \<or> hd ?C = 0x02" by simp
  have t6: "backendFailure (if hd ?C = 0x01 then loadNada browserRejecting
              else loadZstd browserRejecting) (drop 1 ?C) = Some corruptPayload"
    by (simp add: backendFailure_def browserRejecting_def)
  from backend_failure_keeps_payload [OF s1 s2 s3 s4 s5 s6]
    backend_failure_keeps_payload [OF t1 t2 t3 t4 t5 t6] s1 s2 s6 t1 t2 t6
  show ?thesis
    by (simp add: makeResult_def hex_AB idle_def trim_short importRejected_def
        corruptPayload_def)
       (simp add: lit_def)
qed

section \<open>Unknown markers (claim C2)\<close>

text \<open>
  C2. For every non-empty byte sequence whose first byte is none of 0x00, 0x01 and
  0x02, the decoder sets a result whose hex data are those of the bytes after the
  marker, reports the unknown marker, and writes the marker as two upper-case
  hexadecimal digits into the label of the result (and into the error).
\<close>

theorem unknown_marker_passes_through:
  fixes B :: "byte list"
  assumes "trim (input s) \<noteq> []" and "atob P (trim (input s)) = Inr binaryString"
    and "map ucast binaryString = B" and "B \<noteq> []"
    and "hd B \<noteq> 0x00" and "hd B \<noteq> 0x01" and "hd B \<noteq> 0x02"
  shows "result (afterDecode P s)
           = Some (makeResult (lit ''Unknown (0x'' @ twoHexDigits (hd B) @ lit '')'')
                     (drop 1 B) (input s))
         \<and> error (afterDecode P s) = lit ''Unknown compression marker: 0x'' @ twoHexDigits (hd B)
         \<and> error (afterDecode P s) \<noteq> []
         \<and> parseHex (hexData (makeResult (lit ''Unknown (0x'' @ twoHexDigits (hd B) @ lit '')'')
                     (drop 1 B) (input s))) = Some (drop 1 B)"
  using assms
  by (simp add: afterDecode_bytes [OF assms(1-4)] switch_unknown makeResult_def
      parseHex_bytesToHex lit_nonempty)

theorem unknown_marker_passes_through_witness:
  "trim (input (idle (lit ''/w==''))) \<noteq> []
   \<and> atob browserOffline (trim (input (idle (lit ''/w=='')))) = Inr [255]
   \<and> result (afterDecode browserOffline (idle (lit ''/w=='')))
       = Some \<lparr>compressionType = lit ''Unknown (0xFF)'', hexData = [],
                originalSize = 4, decodedSize = 0\<rparr>
   \<and> error (afterDecode browserOffline (idle (lit ''/w=='')))
       = lit ''Unknown compression marker: 0xFF''"
proof -
  let ?s = "idle (lit ''/w=='')"
  let ?B = "[255] :: byte list"
  have h1: "trim (input ?s) \<noteq> []" by (simp add: idle_def trim_short) (simp add: lit_def)
  have h2: "atob browserOffline (trim (input ?s)) = Inr [255]"
    by (simp add: idle_def trim_short browserOffline_def atob_marker_only)
  have h3: "map ucast ([255] :: jsstring) = ?B" by simp
  have h4: "?B \<noteq> []" by simp
  have h5: "hd ?B \<noteq> 0x00" "hd ?B \<noteq> 0x01" "hd ?B \<noteq> 0x02" by simp_all
  from unknown_marker_passes_through [OF h1 h2 h3 h4 h5] h1 h2 show ?thesis
    by (simp add: makeResult_def hex_FF hex_nothing idle_def trim_short) (simp add: lit_def)
qed

section \<open>Uncompressed payloads (claim C3)\<close>

text \<open>
  C3. For every byte sequence whose first byte is 0x00, the decoder sets a result whose
  hex data are those of the bytes after the marker, unchanged; no backend is imported
  or called, and no error is reported.
\<close>

theorem uncompressed_passes_through:
  fixes B :: "byte list"
  assumes "trim (input s) \<noteq> []" and "atob P (trim (input s)) = Inr binaryString"
    and "map ucast binaryString = B" and "B \<noteq> []" and "hd B = 0x00"
  shows "decodeBase64 P (input s) =
           [SetLoading True, SetError [], SetResult None, CallAtob (trim (input s)),
            SetResult (Some (makeResult (lit ''Uncompressed (0x00)'') (drop 1 B) (input s))),
            SetLoading False]
         \<and> result (afterDecode P s)
             = Some (makeResult (lit ''Uncompressed (0x00)'') (drop 1 B) (input s))
         \<and> error (afterDecode P s) = []
         \<and> parseHex (hexData (makeResult (lit ''Uncompressed (0x00)'') (drop 1 B) (input s)))
             = Some (drop 1 B)"
  using assms
  by (simp add: afterDecode_def decodeBase64_nonblank tryBlock_bytes [OF assms(2-4)]
      switch_uncompressed makeResult_def parseHex_bytesToHex)

theorem uncompressed_passes_through_witness:
  "trim (input (idle (lit ''AEhlbGxvCg==''))) \<noteq> []
   \<and> atob browserOffline (trim (input (idle (lit ''AEhlbGxvCg==''))))
       = Inr [0, 72, 101, 108, 108, 111, 10]
   \<and> decodeBase64 browserOffline (lit ''AEhlbGxvCg=='')
       = [SetLoading True, SetError [], SetResult None, CallAtob (lit ''AEhlbGxvCg==''),
          SetResult (Some helloResult), SetLoading False]
   \<and> result (afterDecode browserOffline (idle (lit ''AEhlbGxvCg==''))) = Some helloResult
   \<and> error (afterDecode browserOffline (idle (lit ''AEhlbGxvCg==''))) = []
   \<and> parseHex (hexData helloResult) = Some [72, 101, 108, 108, 111, 10]"
proof -
  let ?s = "idle (lit ''AEhlbGxvCg=='')"
  let ?B = "[0, 72, 101, 108, 108, 111, 10] :: byte list"
  have h1: "trim (input ?s) \<noteq> []" by (simp add: idle_def trim_hello) (simp add: lit_def)
  have h2: "atob browserOffline (trim (input ?s)) = Inr [0, 72, 101, 108, 108, 111, 10]"
    by (simp add: idle_def trim_hello browserOffline_def atob_hello)
  have h3: "map ucast ([0, 72, 101, 108, 108, 111, 10] :: jsstring) = ?B" by simp
  have h4: "?B \<noteq> []" by simp
  have h5: "hd ?B = 0x00" by simp
  have r: "makeResult (lit ''Uncompressed (0x00)'') (drop 1 ?B) (input ?s) = helloResult"
    by (simp add: makeResult_def idle_def trim_hello hex_hello helloResult_def)
       (simp add: lit_def)
  from uncompressed_passes_through [OF h1 h2 h3 h4 h5] h1 h2 show ?thesis
    by (simp only: r) (simp add: idle_def trim_hello)
qed

section \<open>Zero decoded bytes (claim C4)\<close>

text \<open>
  C4. For every input whose trimmed text base64-decodes to zero bytes, the decoder
  ends with an error reported, stops before the switch on the marker (no import and
  no call of a backend) and produces no result. A blank input is stopped by the guard
  at the head of the decoder, with \<open>Please enter a base64 string\<close>; any other input
  by the check of the decoded length, with \<open>Invalid base64 data\<close>.
\<close>

theorem zero_bytes_yield_error_and_no_result:
  assumes "atob P (trim (input s)) = Inr binaryString"
    and "map ucast binaryString = ([] :: byte list)"
  shows "decodeBase64 P (input s) =
           (if trim (input s) = [] then [SetError (lit ''Please enter a base64 string'')]
            else [SetLoading True, SetError [], SetResult None, CallAtob (trim (input s)),
                  SetError (lit ''Invalid base64 data''), SetLoading False])
         \<and> \<not> list_ex setsResult (decodeBase64 P (input s))
         \<and> \<not> list_ex isBackendEffect (decodeBase64 P (input s))
         \<and> error (afterDecode P s) \<noteq> []"
proof (cases "trim (input s) = []")
  case True
  then show ?thesis
    by (simp add: afterDecode_def decodeBase64_def lit_nonempty)
next
  case False
  from assms have "atob P (trim (input s)) = Inr []" by simp
  with False show ?thesis
    by (simp add: afterDecode_def decodeBase64_nonblank tryBlock_empty lit_nonempty)
qed

theorem zero_bytes_yield_error_and_no_result_witness:
  "atob browserOffline (trim (input (idle (lit ''  '')))) = Inr []
   \<and> decodeBase64 browserOffline (lit ''  '') = [SetError (lit ''Please enter a base64 string'')]
   \<and> \<not> list_ex setsResult (decodeBase64 browserOffline (lit ''  ''))
   \<and> \<not> list_ex isBackendEffect (decodeBase64 browserOffline (lit ''  ''))
   \<and> error (afterDecode browserOffline (idle (lit ''  ''))) = lit ''Please enter a base64 string''"
proof -
  have t: "trim (lit ''  '') = []" by (simp add: js_eval)
  have h1: "atob browserOffline (trim (input (idle (lit ''  '')))) = Inr []"
    by (simp add: idle_def t browserOffline_def atob_eval)
  have h2: "map ucast ([] :: jsstring) = ([] :: byte list)" by simp
  from zero_bytes_yield_error_and_no_result [OF h1 h2] h1 show ?thesis
    by (simp add: idle_def t afterDecode_def)
qed

section \<open>Invalid base64 text (claim C5)\<close>

text \<open>
  C5, as the code has it on a browser. For every input whose trimmed text has a
  character that is neither of the base64 alphabet, nor \<open>=\<close>, nor ASCII whitespace, or
  whose padding or length is invalid, the decoder reports \<open>Decoding error: \<close> followed
  by the message of \<open>atob\<close>'s error, produces no result and leaves the result cleared.
\<close>

theorem invalid_base64_text_is_rejected:
  assumes "atob P = browserAtob" and "invalidBase64 (trim (input s))"
  shows "decodeBase64 P (input s) =
           [SetLoading True, SetError [], SetResult None, CallAtob (trim (input s)),
            SetError (lit ''Decoding error: '' @ message invalidCharacterError),
            SetLoading False]
         \<and> \<not> list_ex setsResult (decodeBase64 P (input s))
         \<and> result (afterDecode P s) = None
         \<and> error (afterDecode P s) = lit ''Decoding error: '' @ message invalidCharacterError
         \<and> loading (afterDecode P s) = False"
proof -
  from assms(2) have ne: "trim (input s) \<noteq> []" by (rule invalidBase64_nonempty)
  from assms have "atob P (trim (input s)) = Inl invalidCharacterError"
    by (simp add: browserAtob_rejects_iff)
  with ne show ?thesis
    by (simp add: afterDecode_def decodeBase64_nonblank tryBlock_thrown
        invalidCharacterError_def)
qed

theorem invalid_base64_text_is_rejected_witness:
  "atob browserOffline = browserAtob
   \<and> invalidBase64 (trim (lit ''AE!h''))
   \<and> result (afterDecode browserOffline (idle (lit ''AE!h''))) = None
   \<and> error (afterDecode browserOffline (idle (lit ''AE!h'')))
       = lit ''Decoding error: Failed to execute 'atob' on 'Window': The string to be decoded is not correctly encoded.''
   \<and> invalidBase64 (trim [65, 65, 11, 65, 65])
   \<and> result (afterDecode browserOffline (idle [65, 65, 11, 65, 65])) = None
   \<and> invalidBase64 (trim (lit ''QQ=''))
   \<and> result (afterDecode browserOffline (idle (lit ''QQ=''))) = None
   \<and> invalidBase64 (trim (lit ''QUJDR''))
   \<and> result (afterDecode browserOffline (idle (lit ''QUJDR''))) = None"
proof -
  have p: "atob browserOffline = browserAtob" by (simp add: browserOffline_def)
  have a: "invalidBase64 (trim (input (idle (lit ''AE!h''))))"
    by (simp add: idle_def trim_short)
       (simp add: invalidBase64_def foreignCharacter_def isAsciiWhitespace_def
          base64Value_def lit_def)
  have b: "invalidBase64 (trim (input (idle [65, 65, 11, 65, 65])))"
    by (simp add: idle_def trim_def isWhiteSpace_def invalidBase64_def foreignCharacter_def
        isAsciiWhitespace_def base64Value_def)
  have c: "invalidBase64 (trim (input (idle (lit ''QQ=''))))"
    by (simp add: idle_def js_eval invalidBase64_def withoutPadding_def stripPadding_def
        isAsciiWhitespace_def)
  have d: "invalidBase64 (trim (input (idle (lit ''QUJDR''))))"
    by (simp add: idle_def js_eval invalidBase64_def withoutPadding_def stripPadding_def
        isAsciiWhitespace_def)
  from invalid_base64_text_is_rejected [OF p a] invalid_base64_text_is_rejected [OF p b]
    invalid_base64_text_is_rejected [OF p c] invalid_base64_text_is_rejected [OF p d]
    p a b c d
  show ?thesis
    by (simp add: idle_def invalidCharacterError_def) (simp add: lit_def)
qed

text \<open>
  A space is outside the base64 alphabet and is no padding, yet a text with a space
  inside is decoded: \<open>atob\<close> skips ASCII whitespace.
\<close>

theorem inner_whitespace_is_accepted:
  "list_ex (\<lambda>c. c \<noteq> 61 \<and> base64Value c = None) (trim (lit ''AEhl bGxvCg==''))
   \<and> afterDecode browserOffline (idle (lit ''AEhl bGxvCg==''))
      = \<lparr>input = lit ''AEhl bGxvCg=='', result = Some (helloResult\<lparr>originalSize := 13\<rparr>),
         error = [], loading = False\<rparr>"
proof -
  have c: "list_ex (\<lambda>c. c \<noteq> 61 \<and> base64Value c = None) (trim (lit ''AEhl bGxvCg==''))"
    by (simp add: trim_hello_inner_space) (simp add: lit_def base64Value_def)
  have d: "afterDecode browserOffline (idle (lit ''AEhl bGxvCg==''))
      = \<lparr>input = lit ''AEhl bGxvCg=='', result = Some (helloResult\<lparr>originalSize := 13\<rparr>),
         error = [], loading = False\<rparr>"
    by (simp add: afterDecode_def idle_def decodeBase64_def tryBlock_def switchFirstByte_def
        browserOffline_def trim_hello_inner_space atob_hello_inner_space makeResult_def
        hex_hello helloResult_def)
       (simp add: lit_def)
  from c d show ?thesis by blast
qed

section \<open>The sizes of a result (claims C7 and C8)\<close>

text \<open>
  C7. In every result that a run of the decoder sets, on any path, \<open>decodedSize\<close> is
  the number of bytes that the hex data encode: both come from the same bytes.
\<close>

theorem decodedSize_is_length_of_hexData_payload:
  "SetResult (Some r) \<in> set (decodeBase64 P inp) \<Longrightarrow>
   map_option length (parseHex (hexData r)) = Some (decodedSize r)"
  by (auto dest!: decodeBase64_result simp add: parseHex_bytesToHex makeResult_def)

theorem decodedSize_is_length_of_hexData_payload_witness:
  "SetResult (Some \<lparr>compressionType = lit ''ZSTD (0x02)'', hexData = lit ''48 69 21'',
                     originalSize = 4, decodedSize = 3\<rparr>)
     \<in> set (decodeBase64 browserStub (lit ''AkFC''))
   \<and> map_option length (parseHex (lit ''48 69 21'')) = Some 3
   \<and> SetResult (Some \<lparr>compressionType = lit ''ZSTD (0x02)'', hexData = lit ''41 42'',
                     originalSize = 4, decodedSize = 2\<rparr>)
     \<in> set (decodeBase64 browserOffline (lit ''AkFC''))
   \<and> map_option length (parseHex (lit ''41 42'')) = Some 2
   \<and> SetResult (Some \<lparr>compressionType = lit ''Unknown (0xFF)'', hexData = [],
                     originalSize = 4, decodedSize = 0\<rparr>)
     \<in> set (decodeBase64 browserOffline (lit ''/w==''))
   \<and> map_option length (parseHex []) = Some 0"
proof -
  let ?a = "\<lparr>compressionType = lit ''ZSTD (0x02)'', hexData = lit ''48 69 21'',
                     originalSize = 4, decodedSize = 3\<rparr>"
  let ?b = "\<lparr>compressionType = lit ''ZSTD (0x02)'', hexData = lit ''41 42'',
                     originalSize = 4, decodedSize = 2\<rparr>"
  let ?c = "\<lparr>compressionType = lit ''Unknown (0xFF)'', hexData = [],
                     originalSize = 4, decodedSize = 0\<rparr>"
  have a: "SetResult (Some ?a) \<in> set (decodeBase64 browserStub (lit ''AkFC''))"
    by (simp add: decodeBase64_def tryBlock_def switchFirstByte_def browserStub_def
        trim_short atob_marked_AB makeResult_def hex_stub Let_def)
       (simp add: lit_def)
  have b: "SetResult (Some ?b) \<in> set (decodeBase64 browserOffline (lit ''AkFC''))"
    by (simp add: decodeBase64_def tryBlock_def switchFirstByte_def browserOffline_def
        trim_short atob_marked_AB makeResult_def hex_AB)
       (simp add: lit_def)
  have c: "SetResult (Some ?c) \<in> set (decodeBase64 browserOffline (lit ''/w==''))"
    by (simp add: decodeBase64_def tryBlock_def switchFirstByte_def browserOffline_def
        trim_short atob_marker_only makeResult_def hex_nothing)
       (simp add: js_eval)
  from decodedSize_is_length_of_hexData_payload [OF a]
    decodedSize_is_length_of_hexData_payload [OF b]
    decodedSize_is_length_of_hexData_payload [OF c] a b c
  show ?thesis by simp
qed

text \<open>
  C8. In every result that a run of the decoder sets, \<open>originalSize\<close> is the number of
  code units of the trimmed input text, the base64 string, and not the number of
  decoded bytes.
\<close>

theorem originalSize_is_length_of_trimmed_input:
  "SetResult (Some r) \<in> set (decodeBase64 P inp) \<Longrightarrow> originalSize r = length (trim inp)"
  by (auto dest!: decodeBase64_result simp add: makeResult_def)

theorem originalSize_is_length_of_trimmed_input_witness:
  "SetResult (Some helloResult) \<in> set (decodeBase64 browserOffline (lit ''  AEhlbGxvCg==  ''))
   \<and> originalSize helloResult = length (trim (lit ''  AEhlbGxvCg==  ''))
   \<and> originalSize helloResult = 12
   \<and> length (lit ''  AEhlbGxvCg==  '') = 16
   \<and> decodedSize helloResult = 6"
proof -
  have a: "SetResult (Some helloResult)
             \<in> set (decodeBase64 browserOffline (lit ''  AEhlbGxvCg==  ''))"
    by (simp add: decodeBase64_def tryBlock_def switchFirstByte_def browserOffline_def
        trim_hello_padded atob_hello makeResult_def hex_hello helloResult_def)
       (simp add: lit_def)
  from originalSize_is_length_of_trimmed_input [OF a] a show ?thesis
    by (simp add: helloResult_def lit_def)
qed

section \<open>Blank input (claim C9)\<close>

text \<open>
  C9. For every input that is empty or consists of whitespace only, the decoder does
  one thing: it sets the error that asks for a base64 string. It calls neither
  \<open>atob\<close> nor a backend, and the result and the loading flag stay as they were.
\<close>

theorem blank_input_only_sets_error:
  assumes "list_all isWhiteSpace (input s)"
  shows "decodeBase64 P (input s) = [SetError (lit ''Please enter a base64 string'')]
         \<and> afterDecode P s = s\<lparr>error := lit ''Please enter a base64 string''\<rparr>"
  using assms by (simp add: afterDecode_def decodeBase64_def trim_empty_iff)

theorem blank_input_only_sets_error_witness:
  "list_all isWhiteSpace [0x20, 0x09, 0xA0, 0x3000]
   \<and> decodeBase64 browserOffline [0x20, 0x09, 0xA0, 0x3000]
       = [SetError (lit ''Please enter a base64 string'')]
   \<and> afterDecode browserOffline
        \<lparr>input = [0x20, 0x09, 0xA0, 0x3000], result = Some helloResult, error = [],
         loading = True\<rparr>
      = \<lparr>input = [0x20, 0x09, 0xA0, 0x3000], result = Some helloResult,
         error = lit ''Please enter a base64 string'', loading = True\<rparr>"
proof -
  let ?s = "\<lparr>input = [0x20, 0x09, 0xA0, 0x3000], result = Some helloResult, error = [],
         loading = True\<rparr>"
  have h: "list_all isWhiteSpace (input ?s)" by (simp add: isWhiteSpace_def)
  from blank_input_only_sets_error [OF h, of browserOffline] h show ?thesis by simp
qed

section \<open>Clearing before decoding (claim C10)\<close>

text \<open>
  C10. Every run on an input that is not blank starts by clearing the error and the
  result, before \<open>atob\<close> is called. Hence after a fatal failure (\<open>atob\<close> throws, or
  returns no bytes) the result is \<open>null\<close>, whatever was shown before, next to a
  non-empty error.
\<close>

theorem nonblank_run_clears_first:
  assumes "trim (input s) \<noteq> []"
  shows "take 4 (decodeBase64 P (input s))
           = [SetLoading True, SetError [], SetResult None, CallAtob (trim (input s))]
         \<and> ((case atob P (trim (input s)) of
                Inl err \<Rightarrow> True
              | Inr binaryString \<Rightarrow> binaryString = [])
             \<longrightarrow> result (afterDecode P s) = None \<and> error (afterDecode P s) \<noteq> [])"
proof -
  have "take 4 (decodeBase64 P (input s))
           = [SetLoading True, SetError [], SetResult None, CallAtob (trim (input s))]"
    using assms by (simp add: decodeBase64_nonblank tryBlock_def)
  moreover have "result (afterDecode P s) = None \<and> error (afterDecode P s) \<noteq> []"
    if "atob P (trim (input s)) = Inl err" for err
    using assms that
    by (simp add: afterDecode_def decodeBase64_nonblank tryBlock_thrown lit_nonempty)
  moreover have "result (afterDecode P s) = None \<and> error (afterDecode P s) \<noteq> []"
    if "atob P (trim (input s)) = Inr []"
    using assms that
    by (simp add: afterDecode_def decodeBase64_nonblank tryBlock_empty lit_nonempty)
  ultimately show ?thesis
    by (cases "atob P (trim (input s))") simp_all
qed

theorem nonblank_run_clears_first_witness:
  "trim (lit ''AE!h'') \<noteq> []
   \<and> atob browserOffline (trim (lit ''AE!h'')) = Inl invalidCharacterError
   \<and> take 4 (decodeBase64 browserOffline (lit ''AE!h''))
       = [SetLoading True, SetError [], SetResult None, CallAtob (lit ''AE!h'')]
   \<and> result (afterDecode browserOffline
        \<lparr>input = lit ''AE!h'', result = Some helloResult,
         error = lit ''Unknown compression marker: 0xFF'', loading = False\<rparr>) = None
   \<and> error (afterDecode browserOffline
        \<lparr>input = lit ''AE!h'', result = Some helloResult,
         error = lit ''Unknown compression marker: 0xFF'', loading = False\<rparr>) \<noteq> []"
proof -
  let ?s = "\<lparr>input = lit ''AE!h'', result = Some helloResult,
         error = lit ''Unknown compression marker: 0xFF'', loading = False\<rparr>"
  have s1: "trim (input ?s) \<noteq> []" by (simp add: trim_short) (simp add: lit_def)
  have s2: "atob browserOffline (trim (input ?s)) = Inl invalidCharacterError"
    by (simp add: trim_short browserOffline_def atob_bang)
  from nonblank_run_clears_first [OF s1, of browserOffline] s1 s2
  show ?thesis by (simp add: trim_short)
qed

end
